theory Spec2Isabelle
  imports Main "HOL-Library.AList" "HOL-Library.Sublist"
begin

section \<open>Python values, exceptions and dictionaries\<close>

text \<open>
  The server of \<^verbatim>\<open>llama_political_manager/mcp_server.py\<close> passes values of type
  \<^verbatim>\<open>Any\<close> around: keyword arguments, handler results, resource contents. They are
  modelled by one datatype of Python values. A float is kept exactly, as a mantissa and a
  binary exponent (\<open>PFloat m e\<close> is \<open>m * 2 ^ e\<close>).
\<close>

datatype py_val =
    PNone
  | PBool bool
  | PInt int
  | PFloat int int
  | PStr string
  | PList "py_val list"
  | PDict "(string \<times> py_val) list"

text \<open>
  Exceptions are values. The module raises \<^verbatim>\<open>ValueError\<close>, \<^verbatim>\<open>PermissionError\<close> and
  \<^verbatim>\<open>RuntimeError\<close>; a handler may raise anything, so \<open>OtherError\<close> carries the class
  name of any other exception together with its message.
\<close>

datatype py_exc =
    ValueError string
  | PermissionError string
  | RuntimeError string
  | TypeError string
  | OtherError string string


text \<open>
  A Python \<^verbatim>\<open>dict\<close> keeps its keys in insertion order, and \<^verbatim>\<open>d[k] = v\<close> replaces the
  value of a key that is present where it stands and appends a new key at the end. This is
  an association list with \<^const>\<open>AList.update\<close>; \<^verbatim>\<open>k in d\<close> and \<^verbatim>\<open>d[k]\<close> are
  \<^const>\<open>map_of\<close>.
\<close>

type_synonym kwargs = "(string \<times> py_val) list"

section \<open>MCPServer\<close>

text \<open>
  The registry holds, for every tool, a reference to the function object that was
  registered; the function objects themselves are kept apart (\<open>objects\<close> below).
\<close>

type_synonym obj_ref = nat

record tool =
  name :: string
  description :: string
  handler :: obj_ref

record tool_entry =
  entry_name :: string
  entry_description :: string

record MCPServer =
  tools :: "(string \<times> tool) list"
  resources :: "(string \<times> py_val) list"
  is_running :: bool
  clients :: "py_val list"
  host :: string
  port :: int

text \<open>
  A handler is called as \<^verbatim>\<open>handler(**arguments)\<close>. It is an arbitrary Python callable:
  it returns a value or raises, it may hold the server (the default tools
  \<^verbatim>\<open>get_configuration\<close> and \<^verbatim>\<open>update_configuration\<close> close over \<^verbatim>\<open>self\<close>) and read
  or change it, and it may have effects outside the server (the tests observe a counter),
  which act on a world \<open>'w\<close>. So a handler takes the arguments, the server and the world,
  and gives its outcome (\<open>Inl\<close> the exception raised), the server and the world as it
  leaves them. \<^verbatim>\<open>asyncio.iscoroutinefunction\<close> tells the two kinds of callable apart, so
  the kind is a tag on the callable. \<open>'z\<close> is the type of the fields that a subclass adds
  to the server.
\<close>

type_synonym ('w, 'z) handler_fn =
  "kwargs \<Rightarrow> 'z MCPServer_scheme \<Rightarrow> 'w \<Rightarrow> (py_exc + py_val) \<times> 'z MCPServer_scheme \<times> 'w"

datatype ('w, 'z) callable =
    Function "('w, 'z) handler_fn"
  | CoroutineFunction "('w, 'z) handler_fn"

fun fn_of :: "('w, 'z) callable \<Rightarrow> ('w, 'z) handler_fn" where
  "fn_of (Function f) = f"
| "fn_of (CoroutineFunction f) = f"

type_synonym ('w, 'z) objects = "obj_ref \<Rightarrow> ('w, 'z) callable"

text \<open>
  \<^verbatim>\<open>__init__\<close>. The methods below are stated on the record scheme, so that they are
  also the methods of the subclass \<^verbatim>\<open>PoliticalDocumentMCPServer\<close>, which adds fields
  and overrides none of them. Each method takes \<^verbatim>\<open>self\<close> and returns it updated; the
  \<^verbatim>\<open>print\<close> calls of \<^verbatim>\<open>start\<close> and \<^verbatim>\<open>stop\<close> write to standard output, which is
  not part of the server.
\<close>

definition MCPServer_init :: "MCPServer" where
  "MCPServer_init =
     \<lparr>tools = [], resources = [], is_running = False, clients = [],
      host = ''localhost'', port = 8080\<rparr>"

definition start :: "'z MCPServer_scheme \<Rightarrow> string \<Rightarrow> int \<Rightarrow> 'z MCPServer_scheme" where
  "start self h p = self\<lparr>is_running := True, host := h, port := p\<rparr>"

definition stop :: "'z MCPServer_scheme \<Rightarrow> 'z MCPServer_scheme" where
  "stop self = self\<lparr>is_running := False, clients := []\<rparr>"

definition register_tool ::
  "'z MCPServer_scheme \<Rightarrow> string \<Rightarrow> string \<Rightarrow> obj_ref \<Rightarrow> 'z MCPServer_scheme" where
  "register_tool self n d h =
     self\<lparr>tools := AList.update n \<lparr>name = n, description = d, handler = h\<rparr> (tools self)\<rparr>"

definition register_resource ::
  "'z MCPServer_scheme \<Rightarrow> string \<Rightarrow> py_val \<Rightarrow> 'z MCPServer_scheme" where
  "register_resource self uri content = self\<lparr>resources := AList.update uri content (resources self)\<rparr>"

text \<open>
  \<^verbatim>\<open>handle_tool_call\<close> returns the outcome of the call (\<open>Inl\<close> the exception raised),
  the server after the call and the world after the call. It looks the handler up and
  runs it; what the handler returns or raises, and the server and the world as the handler
  leaves them, are the result. There is no \<^verbatim>\<open>try\<close> and no copy of the registry.
\<close>

definition handle_tool_call ::
  "('w, 'z) objects \<Rightarrow> 'z MCPServer_scheme \<Rightarrow> string \<Rightarrow> kwargs \<Rightarrow> 'w
     \<Rightarrow> (py_exc + py_val) \<times> 'z MCPServer_scheme \<times> 'w" where
  "handle_tool_call objs self tool_name arguments w =
     (case map_of (tools self) tool_name of
        None \<Rightarrow> (Inl (ValueError (''Tool '' @ tool_name @ '' not found'')), self, w)
      | Some t \<Rightarrow>
          (case objs (handler t) of
             CoroutineFunction f \<Rightarrow> f arguments self w
           | Function f \<Rightarrow> f arguments self w))"

definition list_tools :: "'z MCPServer_scheme \<Rightarrow> tool_entry list" where
  "list_tools self =
     map (\<lambda>t. \<lparr>entry_name = name t, entry_description = description t\<rparr>) (map snd (tools self))"

definition list_resources :: "'z MCPServer_scheme \<Rightarrow> string list" where
  "list_resources self = map fst (resources self)"

text \<open>
  The registry is a Python dictionary whose entries are written by \<open>register_tool\<close>:
  its keys are distinct, and the \<^verbatim>\<open>"name"\<close> field of every entry is the key the entry
  is stored under.
\<close>

definition registry_consistent :: "'z MCPServer_scheme \<Rightarrow> bool" where
  "registry_consistent self =
     (distinct (map fst (tools self)) \<and> list_all (\<lambda>(k, t). name t = k) (tools self))"

text \<open>
  The servers that the methods of the class which write to the server produce from a
  fresh one. A handler that changes the server through these methods stays among them.
\<close>

inductive reachable :: "MCPServer \<Rightarrow> bool" where
  reachable_init: "reachable MCPServer_init"
| reachable_start: "reachable s \<Longrightarrow> reachable (start s h p)"
| reachable_stop: "reachable s \<Longrightarrow> reachable (stop s)"
| reachable_register_tool: "reachable s \<Longrightarrow> reachable (register_tool s n d f)"
| reachable_register_resource: "reachable s \<Longrightarrow> reachable (register_resource s uri content)"

section \<open>PoliticalDocumentMCPServer: the credential gate\<close>

text \<open>
  \<^verbatim>\<open>api_key: Optional[str] = None\<close> is a \<open>string option\<close>; \<^verbatim>\<open>not api_key\<close> holds of
  \<^verbatim>\<open>None\<close> and of the empty string.
\<close>

definition valid_keys :: "string list" where
  "valid_keys = [''valid-api-key'', ''admin-key'', ''service-key'']"

definition validate_tool_access ::
  "'z MCPServer_scheme \<Rightarrow> string \<Rightarrow> string option \<Rightarrow> bool" where
  "validate_tool_access self tool_name api_key =
     (case api_key of
        None \<Rightarrow> False
      | Some k \<Rightarrow> if k = [] then False else k \<in> set valid_keys)"

definition handle_secure_tool_call ::
  "('w, 'z) objects \<Rightarrow> 'z MCPServer_scheme \<Rightarrow> string \<Rightarrow> kwargs \<Rightarrow> string option \<Rightarrow> 'w
     \<Rightarrow> (py_exc + py_val) \<times> 'z MCPServer_scheme \<times> 'w" where
  "handle_secure_tool_call objs self tool_name arguments api_key w =
     (if \<not> validate_tool_access self tool_name api_key
      then (Inl (PermissionError ''Invalid API key or insufficient permissions''), self, w)
      else handle_tool_call objs self tool_name arguments w)"

section \<open>The default tools\<close>

subsection \<open>\<^verbatim>\<open>analyze_political_content\<close>\<close>

text \<open>
  A text is a string of code points below 256. On these \<^verbatim>\<open>str.lower\<close> maps
  \<open>A\<close>..\<open>Z\<close> and the capital letters U+00C0..U+00DE (U+00D7, the multiplication sign, is
  not a letter) to the code point 32 above, and leaves the rest alone. \<^verbatim>\<open>kw in s\<close> on
  strings is \<^const>\<open>sublist\<close>: \<open>kw\<close> occurs in \<open>s\<close> as a contiguous piece.
\<close>

definition lower_char :: "char \<Rightarrow> char" where
  "lower_char c =
     (let n = (of_char c :: nat) in
      if (65 \<le> n \<and> n \<le> 90) \<or> (192 \<le> n \<and> n \<le> 222 \<and> n \<noteq> 215)
      then char_of (n + 32) else c)"

definition lower :: "string \<Rightarrow> string" where
  "lower s = map lower_char s"

definition policy_areas :: "(string \<times> string list) list" where
  "policy_areas =
     [(''healthcare'', [''healthcare'', ''health'', ''medical'', ''insurance'']),
      (''economy'', [''economic'', ''economy'', ''financial'', ''budget'', ''tax'']),
      (''environment'', [''environmental'', ''climate'', ''green'', ''pollution'']),
      (''education'', [''education'', ''school'', ''university'', ''student''])]"

record area_report =
  mentions :: int
  relevance :: string

record analysis_result =
  analysis :: "(string \<times> area_report) list"
  total_policy_mentions :: int
  primary_topics :: "string list"

text \<open>The body of the loop over \<^verbatim>\<open>policy_areas.items()\<close>: the entry of one area.\<close>

definition area_entry :: "string \<Rightarrow> string list \<Rightarrow> area_report" where
  "area_entry text_lower keywords =
     (let m = (\<Sum>kw\<leftarrow>filter (\<lambda>kw. sublist kw text_lower) keywords. 1) in
      \<lparr>mentions = m,
       relevance = (if m > 2 then ''high'' else if m > 0 then ''medium'' else ''low'')\<rparr>)"

definition analyze_political_content :: "string \<Rightarrow> analysis_result" where
  "analyze_political_content text =
     (let text_lower = lower text;
          an = fold (\<lambda>(area, keywords) acc. AList.update area (area_entry text_lower keywords) acc)
                 policy_areas []
      in \<lparr>analysis = an,
          total_policy_mentions = (\<Sum>a\<leftarrow>map snd an. mentions a),
          primary_topics = map fst (filter (\<lambda>(area, data). relevance data = ''high'') an)\<rparr>)"

subsection \<open>\<^verbatim>\<open>query_database\<close>\<close>

text \<open>
  The float \<^verbatim>\<open>0.8\<close> of the mock relationship is the double
  \<open>3602879701896397 * 2 ^ -52\<close>. The parameter \<^verbatim>\<open>database_type\<close> has the default
  \<^verbatim>\<open>"sql"\<close>; a call that leaves it out is a call with \<open>''sql''\<close>.
\<close>

record db_result =
  query :: string
  results :: "py_val list"
  count :: int
  database_type :: string

definition query_database :: "string \<Rightarrow> string \<Rightarrow> py_exc + db_result" where
  "query_database q dbt =
     (if dbt = ''sql'' then
        Inr \<lparr>query = q,
             results =
               [PDict [(''id'', PInt 1), (''title'', PStr ''Document 1''), (''category'', PStr ''political'')],
                PDict [(''id'', PInt 2), (''title'', PStr ''Document 2''), (''category'', PStr ''technical'')]],
             count = 2,
             database_type = ''sql''\<rparr>
      else if dbt = ''neo4j'' then
        Inr \<lparr>query = q,
             results =
               [PDict [(''node'', PDict [(''id'', PInt 1), (''type'', PStr ''Document''), (''title'', PStr ''Doc 1'')])],
                PDict [(''relationship'', PDict [(''type'', PStr ''RELATED_TO''), (''weight'', PFloat 3602879701896397 (- 52))])]],
             count = 2,
             database_type = ''neo4j''\<rparr>
      else Inl (ValueError (''Unsupported database type: '' @ dbt)))"

section \<open>Example handlers\<close>

text \<open>
  Three handlers whose calls can be observed, over a world that is a call counter: a
  synchronous one that returns the counter, a coroutine function that raises, and one that
  registers a resource on the server and then raises. All count the call.
  \<open>example_objects\<close> holds them under the references 0, 1 and 2, and \<open>example_server\<close> is
  a fresh server on which they are registered.
\<close>

definition counting_tool :: "(nat, unit) callable" where
  "counting_tool = Function (\<lambda>arguments self n. (Inr (PInt (int n)), self, Suc n))"

definition failing_tool :: "(nat, unit) callable" where
  "failing_tool =
     CoroutineFunction (\<lambda>arguments self n. (Inl (RuntimeError ''boom''), self, Suc n))"

definition meddling_tool :: "(nat, unit) callable" where
  "meddling_tool =
     Function (\<lambda>arguments self n.
       (Inl (RuntimeError ''boom''), register_resource self ''note'' (PStr ''left behind''), Suc n))"

definition example_objects :: "(nat, unit) objects" where
  "example_objects r =
     (if r = 0 then counting_tool else if r = 1 then failing_tool else meddling_tool)"

definition example_server :: "MCPServer" where
  "example_server =
     register_tool
       (register_tool (register_tool MCPServer_init ''count'' ''Count the calls'' 0)
          ''fail'' ''Always raise'' 1)
       ''meddle'' ''Register a resource, then raise'' 2"

section \<open>Facts about lookup and dispatch\<close>

lemma map_of_absent: "k \<notin> fst ` set al \<Longrightarrow> map_of al k = None"
  by (simp add: map_of_eq_None_iff)

lemma handle_tool_call_absent:
  "map_of (tools self) tool_name = None \<Longrightarrow>
     handle_tool_call objs self tool_name arguments w
       = (Inl (ValueError (''Tool '' @ tool_name @ '' not found'')), self, w)"
  by (simp add: handle_tool_call_def)

text \<open>
  Both branches of the \<^verbatim>\<open>iscoroutinefunction\<close> test run the handler on the arguments:
  the caller sees one calling convention.
\<close>

lemma handle_tool_call_present:
  "map_of (tools self) tool_name = Some t \<Longrightarrow>
     handle_tool_call objs self tool_name arguments w
       = fn_of (objs (handler t)) arguments self w"
  by (cases "objs (handler t)") (simp_all add: handle_tool_call_def)

lemma example_server_tools:
  "tools example_server =
     [(''count'', \<lparr>name = ''count'', description = ''Count the calls'', handler = 0\<rparr>),
      (''fail'', \<lparr>name = ''fail'', description = ''Always raise'', handler = 1\<rparr>),
      (''meddle'',
       \<lparr>name = ''meddle'', description = ''Register a resource, then raise'', handler = 2\<rparr>)]"
  by (simp add: example_server_def register_tool_def MCPServer_init_def)

lemma example_calls:
  "handle_tool_call example_objects example_server ''count'' [] 0
     = (Inr (PInt 0), example_server, 1)"
  "handle_tool_call example_objects example_server ''fail'' [] 0
     = (Inl (RuntimeError ''boom''), example_server, 1)"
  "handle_tool_call example_objects example_server ''meddle'' [] 0
     = (Inl (RuntimeError ''boom''),
        register_resource example_server ''note'' (PStr ''left behind''), 1)"
  by (simp_all add: handle_tool_call_def example_server_tools example_objects_def
      counting_tool_def failing_tool_def meddling_tool_def)

lemma validate_denied:
  "api_key \<notin> Some ` set valid_keys \<Longrightarrow> \<not> validate_tool_access self tool_name api_key"
  by (auto simp: validate_tool_access_def split: option.splits)

lemma validate_granted:
  "api_key \<in> Some ` set valid_keys \<Longrightarrow> validate_tool_access self tool_name api_key"
  by (auto simp: validate_tool_access_def valid_keys_def split: option.splits)

section \<open>Facts about the registry\<close>

lemma no_entry_named:
  "n \<notin> fst ` set al \<Longrightarrow> list_all (\<lambda>(k, t). name t = k) al \<Longrightarrow>
     filter (\<lambda>t. name t = n) (map snd al) = []"
  by (induction al) auto

lemma update_single_entry:
  "distinct (map fst al) \<Longrightarrow> list_all (\<lambda>(k, t). name t = k) al \<Longrightarrow> name v = n \<Longrightarrow>
     filter (\<lambda>t. name t = n) (map snd (AList.update n v al)) = [v]"
  by (induction al) (auto simp: no_entry_named)

lemma list_all_update:
  "list_all (\<lambda>(k, t). name t = k) al \<Longrightarrow> name v = n \<Longrightarrow>
     list_all (\<lambda>(k, t). name t = k) (AList.update n v al)"
  by (induction al) auto

lemma registry_consistent_init: "registry_consistent MCPServer_init"
  by (simp add: registry_consistent_def MCPServer_init_def)

lemma registry_consistent_register_tool:
  "registry_consistent self \<Longrightarrow> registry_consistent (register_tool self n d h)"
  by (simp add: registry_consistent_def register_tool_def distinct_update list_all_update)

lemma registry_consistent_start: "registry_consistent (start self h p) = registry_consistent self"
  by (simp add: registry_consistent_def start_def)

lemma registry_consistent_stop: "registry_consistent (stop self) = registry_consistent self"
  by (simp add: registry_consistent_def stop_def)

lemma registry_consistent_register_resource:
  "registry_consistent (register_resource self uri content) = registry_consistent self"
  by (simp add: registry_consistent_def register_resource_def)

lemma tools_register_tool:
  "tools (register_tool self n d h)
     = AList.update n \<lparr>name = n, description = d, handler = h\<rparr> (tools self)"
  by (simp add: register_tool_def)

lemma register_tool_twice:
  "register_tool (register_tool self n d1 h1) n d2 h2 = register_tool self n d2 h2"
  by (simp add: register_tool_def)

lemma list_tools_named:
  "registry_consistent self \<Longrightarrow>
     filter (\<lambda>e. entry_name e = n) (list_tools (register_tool self n d h))
       = [\<lparr>entry_name = n, entry_description = d\<rparr>]"
proof -
  assume ok: "registry_consistent self"
  have entries: "filter (\<lambda>e. entry_name e = n)
        (map (\<lambda>t. \<lparr>entry_name = name t, entry_description = description t\<rparr>) ts)
      = map (\<lambda>t. \<lparr>entry_name = name t, entry_description = description t\<rparr>)
          (filter (\<lambda>t. name t = n) ts)" for ts :: "tool list"
    by (induction ts) simp_all
  from ok have "filter (\<lambda>t. name t = n)
        (map snd (AList.update n \<lparr>name = n, description = d, handler = h\<rparr> (tools self)))
      = [\<lparr>name = n, description = d, handler = h\<rparr>]"
    by (intro update_single_entry) (simp_all add: registry_consistent_def)
  then show ?thesis
    by (simp only: list_tools_def tools_register_tool entries) simp
qed

lemma handle_tool_call_registered:
  "handle_tool_call objs (register_tool self n d h) n arguments w
     = fn_of (objs h) arguments (register_tool self n d h) w"
  by (simp add: handle_tool_call_present [where t = "\<lparr>name = n, description = d, handler = h\<rparr>"]
      register_tool_def update_conv')

text \<open>Every server that these methods produce has a consistent registry.\<close>

lemma reachable_consistent: "reachable s \<Longrightarrow> registry_consistent s"
  by (induction rule: reachable.induct)
    (simp_all add: registry_consistent_init registry_consistent_register_tool
       registry_consistent_start registry_consistent_stop registry_consistent_register_resource)

text \<open>
  The call of a tool adds nothing of its own: the registry after the call is consistent
  when the handler that ran left it so.
\<close>

lemma handle_tool_call_consistent:
  assumes "registry_consistent self"
    and "\<And>t. map_of (tools self) n = Some t \<Longrightarrow>
           registry_consistent (fst (snd (fn_of (objs (handler t)) arguments self w)))"
  shows "registry_consistent (fst (snd (handle_tool_call objs self n arguments w)))"
proof (cases "map_of (tools self) n")
  case None
  with assms(1) show ?thesis
    by (simp add: handle_tool_call_absent)
next
  case (Some t)
  with assms(2) show ?thesis
    by (simp add: handle_tool_call_present)
qed

lemma example_server_consistent: "registry_consistent example_server"
  by (simp add: example_server_def registry_consistent_register_tool registry_consistent_init)

section \<open>Facts about the analysis\<close>

text \<open>
  The keys of \<open>policy_areas\<close> are distinct, so the loop appends one entry per area, in
  the order of \<open>policy_areas\<close>.
\<close>

lemma analysis_entries:
  "analysis (analyze_political_content text)
     = map (\<lambda>(area, keywords). (area, area_entry (lower text) keywords)) policy_areas"
  by (simp add: analyze_political_content_def policy_areas_def Let_def)

lemma mentions_area_entry:
  "mentions (area_entry t keywords) = int (length (filter (\<lambda>kw. sublist kw t) keywords))"
  by (simp add: area_entry_def Let_def sum_list_triv)

lemma relevance_area_entry:
  "relevance (area_entry t keywords)
     = (if mentions (area_entry t keywords) > 2 then ''high''
        else if mentions (area_entry t keywords) > 0 then ''medium'' else ''low'')"
  by (simp add: area_entry_def Let_def)

lemma health_in_healthcare: "sublist ''healthcare'' t \<Longrightarrow> sublist ''health'' t"
proof -
  assume "sublist ''healthcare'' t"
  moreover have "sublist ''health'' ''healthcare''" by simp
  ultimately show ?thesis
    using sublist_order.order.trans by blast
qed

lemma example_text_report:
  "analyze_political_content ''Healthcare insurance and MEDICAL budget''
     = \<lparr>analysis =
          [(''healthcare'', \<lparr>mentions = 4, relevance = ''high''\<rparr>),
           (''economy'', \<lparr>mentions = 1, relevance = ''medium''\<rparr>),
           (''environment'', \<lparr>mentions = 0, relevance = ''low''\<rparr>),
           (''education'', \<lparr>mentions = 0, relevance = ''low''\<rparr>)],
        total_policy_mentions = 5, primary_topics = [''healthcare'']\<rparr>"
  by code_simp

lemma example_text_lower:
  "lower ''Healthcare insurance and MEDICAL budget'' = ''healthcare insurance and medical budget''"
  by code_simp

lemma shouted_text_lower:
  "lower ''Healthcare healthcare HEALTHCARE.'' = ''healthcare healthcare healthcare.''"
  by code_simp

section \<open>Dispatch of unknown names\<close>

text \<open>
  C1. For every tool name that is not a key of the server's \<open>tools\<close> dictionary and every
  arguments mapping, \<open>handle_tool_call\<close> raises the tool-not-found error
  \<^verbatim>\<open>ValueError("Tool <name> not found")\<close>. No handler runs: the world and the server are
  returned as they were, whatever handlers the server holds and whatever these would do.
\<close>

theorem handle_tool_call_unknown:
  "tool_name \<notin> fst ` set (tools self) \<Longrightarrow>
     handle_tool_call objs self tool_name arguments w
       = (Inl (ValueError (''Tool '' @ tool_name @ '' not found'')), self, w)"
  by (rule handle_tool_call_absent) (rule map_of_absent)

theorem handle_tool_call_unknown_witness:
  "''missing'' \<notin> fst ` set (tools example_server)
   \<and> handle_tool_call example_objects example_server ''missing'' [(''q'', PStr ''x'')] 0
       = (Inl (ValueError ''Tool missing not found''), example_server, 0)"
proof -
  have absent: "''missing'' \<notin> fst ` set (tools example_server)"
    by (simp add: example_server_tools)
  from handle_tool_call_unknown [OF absent, of example_objects "[(''q'', PStr ''x'')]" 0] absent
  show ?thesis by simp
qed

section \<open>A handler that raises\<close>




section \<open>The credential gate\<close>

text \<open>
  C3. A credential that is missing (\<open>None\<close>) or not in the allow-list \<open>valid_keys\<close> makes
  \<open>validate_tool_access\<close> return \<open>False\<close>, and \<open>handle_secure_tool_call\<close> then raises
  \<^verbatim>\<open>PermissionError\<close> and returns the server and the world untouched, whatever handler
  is registered: no handler runs. A credential in the allow-list makes
  \<open>validate_tool_access\<close> return \<open>True\<close>, and \<open>handle_secure_tool_call\<close> is then
  \<open>handle_tool_call\<close>.
\<close>

theorem credential_gate:
  "(api_key \<notin> Some ` set valid_keys \<longrightarrow>
      \<not> validate_tool_access self tool_name api_key \<and>
      handle_secure_tool_call objs self tool_name arguments api_key w
        = (Inl (PermissionError ''Invalid API key or insufficient permissions''), self, w))
   \<and> (api_key \<in> Some ` set valid_keys \<longrightarrow>
      validate_tool_access self tool_name api_key \<and>
      handle_secure_tool_call objs self tool_name arguments api_key w
        = handle_tool_call objs self tool_name arguments w)"
  by (simp add: handle_secure_tool_call_def validate_denied validate_granted)

text \<open>
  On \<open>example_server\<close> the counter stays at 0 under a bad or a missing key, and the call
  under \<open>''valid-api-key''\<close> returns the handler's value and counts one call.
\<close>

theorem credential_gate_witness:
  "Some ''bad-key'' \<notin> Some ` set valid_keys
   \<and> \<not> validate_tool_access example_server ''count'' (Some ''bad-key'')
   \<and> handle_secure_tool_call example_objects example_server ''count'' [] (Some ''bad-key'') 0
       = (Inl (PermissionError ''Invalid API key or insufficient permissions''), example_server, 0)
   \<and> None \<notin> Some ` set valid_keys
   \<and> \<not> validate_tool_access example_server ''count'' None
   \<and> handle_secure_tool_call example_objects example_server ''count'' [] None 0
       = (Inl (PermissionError ''Invalid API key or insufficient permissions''), example_server, 0)
   \<and> Some ''valid-api-key'' \<in> Some ` set valid_keys
   \<and> validate_tool_access example_server ''count'' (Some ''valid-api-key'')
   \<and> handle_secure_tool_call example_objects example_server ''count'' [] (Some ''valid-api-key'') 0
       = (Inr (PInt 0), example_server, 1)"
proof -
  have bad: "Some ''bad-key'' \<notin> Some ` set valid_keys"
    by (simp add: valid_keys_def)
  have none: "None \<notin> Some ` set valid_keys"
    by simp
  have good: "Some ''valid-api-key'' \<in> Some ` set valid_keys"
    by (simp add: valid_keys_def)
  have call: "handle_tool_call example_objects example_server ''count'' [] 0
      = (Inr (PInt 0), example_server, 1)"
    by (rule example_calls)
  from credential_gate [of "Some ''bad-key''" example_server "''count''" example_objects "[]" 0]
    credential_gate [of None example_server "''count''" example_objects "[]" 0]
    credential_gate [of "Some ''valid-api-key''" example_server "''count''" example_objects "[]" 0]
    bad none good call
  show ?thesis by simp
qed

text \<open>
  C10. The decision of \<open>validate_tool_access\<close> does not depend on the tool name (nor on
  the server): one credential gets the same answer for any two names. A credential of the
  allow-list turns the secure call into the plain call for every name, and for a name that
  is not registered the failure is then the tool-not-found error. There is no permission
  per tool.
\<close>

theorem access_independent_of_tool:
  "validate_tool_access self n1 c = validate_tool_access self n2 c
   \<and> (c \<in> Some ` set valid_keys \<longrightarrow>
        handle_secure_tool_call objs self n arguments c w = handle_tool_call objs self n arguments w)
   \<and> (c \<in> Some ` set valid_keys \<and> n \<notin> fst ` set (tools self) \<longrightarrow>
        handle_secure_tool_call objs self n arguments c w
          = (Inl (ValueError (''Tool '' @ n @ '' not found'')), self, w))"
proof (intro conjI impI)
  show "validate_tool_access self n1 c = validate_tool_access self n2 c"
    by (simp add: validate_tool_access_def)
next
  assume "c \<in> Some ` set valid_keys"
  then show "handle_secure_tool_call objs self n arguments c w = handle_tool_call objs self n arguments w"
    by (simp add: handle_secure_tool_call_def validate_granted)
next
  assume "c \<in> Some ` set valid_keys \<and> n \<notin> fst ` set (tools self)"
  then show "handle_secure_tool_call objs self n arguments c w
          = (Inl (ValueError (''Tool '' @ n @ '' not found'')), self, w)"
    by (simp add: handle_secure_tool_call_def validate_granted handle_tool_call_absent map_of_absent)
qed

theorem access_independent_of_tool_witness:
  "validate_tool_access example_server ''count'' (Some ''admin-key'')
     = validate_tool_access example_server ''fail'' (Some ''admin-key'')
   \<and> Some ''admin-key'' \<in> Some ` set valid_keys
   \<and> ''missing'' \<notin> fst ` set (tools example_server)
   \<and> handle_secure_tool_call example_objects example_server ''missing'' [] (Some ''admin-key'') 0
       = (Inl (ValueError ''Tool missing not found''), example_server, 0)"
proof -
  have good: "Some ''admin-key'' \<in> Some ` set valid_keys"
    by (simp add: valid_keys_def)
  have absent: "''missing'' \<notin> fst ` set (tools example_server)"
    by (simp add: example_server_tools)
  note inst = access_independent_of_tool
         [of example_server "''count''" "Some ''admin-key''" "''fail''" example_objects "''missing''" "[]" 0]
  from inst have same:
    "validate_tool_access example_server ''count'' (Some ''admin-key'')
       = validate_tool_access example_server ''fail'' (Some ''admin-key'')"
    by (rule conjunct1)
  from inst good absent have
    "handle_secure_tool_call example_objects example_server ''missing'' [] (Some ''admin-key'') 0
       = (Inl (ValueError (''Tool '' @ ''missing'' @ '' not found'')), example_server, 0)"
    by blast
  with same good absent show ?thesis by simp
qed

section \<open>Start and stop\<close>

text \<open>
  C8. \<open>stop\<close> sets \<open>is_running\<close> to \<open>False\<close> and empties \<open>clients\<close>. Every other field
  of the server is as before: \<open>tools\<close>, \<open>resources\<close>, \<open>host\<close>, \<open>port\<close>, and the fields a
  subclass adds.
\<close>

theorem stop_frame:
  "is_running (stop self) = False
   \<and> clients (stop self) = []
   \<and> tools (stop self) = tools self
   \<and> resources (stop self) = resources self
   \<and> host (stop self) = host self
   \<and> port (stop self) = port self
   \<and> MCPServer.more (stop self) = MCPServer.more self"
  by (simp add: stop_def)

text \<open>
  C9. From any server state, \<open>start ''localhost'' 8080\<close> then \<open>stop\<close> leaves the server
  not running; a following \<open>start ''host2'' 9090\<close> leaves it running on \<open>''host2''\<close>,
  port 9090. Nothing of the earlier address is left: the state is the one reached without
  the first \<open>start\<close>. A second \<open>start\<close> overwrites the address of the first, and with the
  same address it changes nothing; \<open>start\<close> is a total function, it has no failing case.
\<close>

theorem start_stop_start:
  "is_running (stop (start self ''localhost'' 8080)) = False
   \<and> is_running (start (stop (start self ''localhost'' 8080)) ''host2'' 9090) = True
   \<and> host (start (stop (start self ''localhost'' 8080)) ''host2'' 9090) = ''host2''
   \<and> port (start (stop (start self ''localhost'' 8080)) ''host2'' 9090) = 9090
   \<and> start (stop (start self h1 p1)) h2 p2 = start (stop self) h2 p2
   \<and> start (start self h1 p1) h2 p2 = start self h2 p2
   \<and> start (start self h p) h p = start self h p"
  by (simp add: start_def stop_def)

section \<open>The mock database tool\<close>

text \<open>
  C7. For every query string, \<open>query_database\<close> with the type \<open>''sql''\<close> returns a result
  with \<open>count = 2\<close> and \<open>database_type = ''sql''\<close>, with the type \<open>''neo4j''\<close> a result with
  \<open>count = 2\<close> and \<open>database_type = ''neo4j''\<close>, and with any other type it raises the
  unsupported-type error \<^verbatim>\<open>ValueError("Unsupported database type: <type>")\<close>.
\<close>

theorem query_database_cases:
  "(\<exists>r. query_database q ''sql'' = Inr r \<and> count r = 2 \<and> database_type r = ''sql'')
   \<and> (\<exists>r. query_database q ''neo4j'' = Inr r \<and> count r = 2 \<and> database_type r = ''neo4j'')
   \<and> (dbt \<noteq> ''sql'' \<and> dbt \<noteq> ''neo4j'' \<longrightarrow>
        query_database q dbt = Inl (ValueError (''Unsupported database type: '' @ dbt)))"
  by (simp add: query_database_def)

theorem query_database_cases_witness:
  "''mongo'' \<noteq> ''sql'' \<and> ''mongo'' \<noteq> ''neo4j''
   \<and> query_database ''MATCH (d) RETURN d'' ''mongo''
       = Inl (ValueError ''Unsupported database type: mongo'')"
  using query_database_cases [of "''MATCH (d) RETURN d''" "''mongo''"]
  by simp

section \<open>Registering a name twice\<close>

text \<open>
  C4. Registering a tool under a name that is registered already overwrites the entry and
  raises nothing (\<open>register_tool\<close> has no failing case). For every server with a
  consistent registry, which every server produced by the methods has, after
  \<open>register_tool n d1 h1\<close> and then \<open>register_tool n d2 h2\<close> the server is the one that
  \<open>register_tool n d2 h2\<close> alone gives; \<open>list_tools\<close> has exactly one entry named \<open>n\<close>,
  with the description \<open>d2\<close>; and \<open>handle_tool_call\<close> on \<open>n\<close> is the run of the function
  object \<open>h2\<close> on the arguments. The claim's \<open>"x"\<close> is any name \<open>n\<close>.
\<close>

theorem register_tool_overwrites:
  "registry_consistent self \<Longrightarrow>
     register_tool (register_tool self n d1 h1) n d2 h2 = register_tool self n d2 h2
   \<and> filter (\<lambda>e. entry_name e = n) (list_tools (register_tool (register_tool self n d1 h1) n d2 h2))
       = [\<lparr>entry_name = n, entry_description = d2\<rparr>]
   \<and> handle_tool_call objs (register_tool (register_tool self n d1 h1) n d2 h2) n arguments w
       = fn_of (objs h2) arguments (register_tool (register_tool self n d1 h1) n d2 h2) w"
  by (simp add: register_tool_twice list_tools_named handle_tool_call_registered)

theorem register_tool_overwrites_witness:
  "registry_consistent example_server
   \<and> filter (\<lambda>e. entry_name e = ''x'')
        (list_tools (register_tool (register_tool example_server ''x'' ''first'' 1) ''x'' ''second'' 0))
       = [\<lparr>entry_name = ''x'', entry_description = ''second''\<rparr>]
   \<and> handle_tool_call example_objects
        (register_tool (register_tool example_server ''x'' ''first'' 1) ''x'' ''second'' 0) ''x'' [] 0
       = (Inr (PInt 0),
          register_tool (register_tool example_server ''x'' ''first'' 1) ''x'' ''second'' 0,
          1)"
proof -
  note inst = register_tool_overwrites
          [OF example_server_consistent, of "''x''" "''first''" 1 "''second''" 0 example_objects "[]" 0]
  from inst [THEN conjunct2, THEN conjunct1] inst [THEN conjunct2, THEN conjunct2]
    example_server_consistent
  show ?thesis
    by (simp add: example_objects_def counting_tool_def)
qed

section \<open>The analysis tool\<close>

text \<open>
  C6. For every input text, the report of \<open>analyze_political_content\<close> has one entry
  per policy area, in the order of \<open>policy_areas\<close>. The entry of an area holds its
  mention count, which is the number of the area's keywords that occur in the lower-cased
  text, and its relevance, which is \<open>''high''\<close> when the count is above 2, \<open>''medium''\<close>
  when it is above 0 and \<open>''low''\<close> otherwise. \<open>total_policy_mentions\<close> is the sum of the
  counts over all areas, and \<open>primary_topics\<close> lists exactly the areas whose relevance is
  \<open>''high''\<close>, in order.
\<close>

theorem analysis_report:
  fixes doc :: string
  defines "r \<equiv> analyze_political_content doc"
  shows "map fst (analysis r) = map fst policy_areas
   \<and> (\<forall>(area, keywords) \<in> set policy_areas.
        \<exists>data. map_of (analysis r) area = Some data
          \<and> mentions data = int (length (filter (\<lambda>kw. sublist kw (lower doc)) keywords))
          \<and> relevance data = (if mentions data > 2 then ''high''
                               else if mentions data > 0 then ''medium'' else ''low''))
   \<and> total_policy_mentions r = (\<Sum>(area, data)\<leftarrow>analysis r. mentions data)
   \<and> primary_topics r = map fst (filter (\<lambda>(area, data). relevance data = ''high'') (analysis r))"
proof (intro conjI)
  show "map fst (analysis r) = map fst policy_areas"
    unfolding r_def analysis_entries by (simp add: policy_areas_def)
next
  show "\<forall>(area, keywords) \<in> set policy_areas.
        \<exists>data. map_of (analysis r) area = Some data
          \<and> mentions data = int (length (filter (\<lambda>kw. sublist kw (lower doc)) keywords))
          \<and> relevance data = (if mentions data > 2 then ''high''
                               else if mentions data > 0 then ''medium'' else ''low'')"
  proof (intro ballI, unfold split_paired_all prod.case)
    fix area kws
    assume mem: "(area, kws) \<in> set policy_areas"
    have "distinct (map fst policy_areas)"
      by (simp add: policy_areas_def)
    with mem have "map_of policy_areas area = Some kws"
      by simp
    then have "map_of (analysis r) area = Some (area_entry (lower doc) kws)"
      unfolding r_def analysis_entries by (simp add: map_of_map)
    moreover have "mentions (area_entry (lower doc) kws)
        = int (length (filter (\<lambda>kw. sublist kw (lower doc)) kws))"
      by (rule mentions_area_entry)
    moreover have "relevance (area_entry (lower doc) kws)
        = (if mentions (area_entry (lower doc) kws) > 2 then ''high''
           else if mentions (area_entry (lower doc) kws) > 0 then ''medium'' else ''low'')"
      by (rule relevance_area_entry)
    ultimately show "\<exists>data. map_of (analysis r) area = Some data
          \<and> mentions data = int (length (filter (\<lambda>kw. sublist kw (lower doc)) kws))
          \<and> relevance data = (if mentions data > 2 then ''high''
                               else if mentions data > 0 then ''medium'' else ''low'')"
      by blast
  qed
next
  show "total_policy_mentions r = (\<Sum>(area, data)\<leftarrow>analysis r. mentions data)"
    unfolding r_def by (simp add: analyze_political_content_def Let_def policy_areas_def)
next
  show "primary_topics r = map fst (filter (\<lambda>(area, data). relevance data = ''high'') (analysis r))"
    unfolding r_def by (simp add: analyze_political_content_def Let_def)
qed

theorem analysis_report_witness:
  "(''healthcare'', [''healthcare'', ''health'', ''medical'', ''insurance'']) \<in> set policy_areas
   \<and> map_of (analysis (analyze_political_content ''Healthcare insurance and MEDICAL budget'')) ''healthcare''
       = Some \<lparr>mentions = 4, relevance = ''high''\<rparr>
   \<and> total_policy_mentions (analyze_political_content ''Healthcare insurance and MEDICAL budget'') = 5
   \<and> primary_topics (analyze_political_content ''Healthcare insurance and MEDICAL budget'')
       = [''healthcare'']"
proof -
  let ?r = "analyze_political_content ''Healthcare insurance and MEDICAL budget''"
  note inst = analysis_report [of "''Healthcare insurance and MEDICAL budget''"]
  have mem: "(''healthcare'', [''healthcare'', ''health'', ''medical'', ''insurance'']) \<in> set policy_areas"
    by (simp add: policy_areas_def)
  from inst have "\<forall>(area, keywords) \<in> set policy_areas.
        \<exists>data. map_of (analysis ?r) area = Some data
          \<and> mentions data = int (length (filter
                (\<lambda>kw. sublist kw (lower ''Healthcare insurance and MEDICAL budget'')) keywords))
          \<and> relevance data = (if mentions data > 2 then ''high''
                               else if mentions data > 0 then ''medium'' else ''low'')"
    by (rule conjunct2 [THEN conjunct1])
  with mem obtain data where
    found: "map_of (analysis ?r) ''healthcare'' = Some data"
    and m: "mentions data = int (length (filter
                (\<lambda>kw. sublist kw (lower ''Healthcare insurance and MEDICAL budget''))
                [''healthcare'', ''health'', ''medical'', ''insurance'']))"
    and rel: "relevance data = (if mentions data > 2 then ''high''
                               else if mentions data > 0 then ''medium'' else ''low'')"
    by blast
  from m have m4: "mentions data = 4"
    unfolding example_text_lower by (simp add: sublist_code)
  with rel have "relevance data = ''high''"
    by simp
  with m4 have "data = \<lparr>mentions = 4, relevance = ''high''\<rparr>"
    by (cases data) simp
  with found have "map_of (analysis ?r) ''healthcare'' = Some \<lparr>mentions = 4, relevance = ''high''\<rparr>"
    by simp
  moreover have "total_policy_mentions ?r = 5" "primary_topics ?r = [''healthcare'']"
    by (simp_all add: example_text_report)
  ultimately show ?thesis
    using mem by simp
qed

text \<open>
  C5, as the claim states it, fails. In the text below the word \<open>healthcare\<close> stands
  three times (at three positions) and no keyword but \<open>healthcare\<close> and its part
  \<open>health\<close> occurs. The tool
  reports 2 mentions and the relevance \<open>''medium''\<close>, and \<open>primary_topics\<close> is empty:
  a keyword counts once however often it occurs, and the two keywords \<open>healthcare\<close> and
  \<open>health\<close> both occur, the second inside the first.
\<close>

theorem three_healthcare_counterexample:
  "length (filter (\<lambda>i. prefix ''healthcare'' (drop i ''healthcare healthcare healthcare''))
      [0..<length ''healthcare healthcare healthcare'']) = 3
   \<and> list_all (\<lambda>kw. \<not> sublist kw ''healthcare healthcare healthcare'')
        (filter (\<lambda>kw. kw \<notin> set [''healthcare'', ''health'']) (concat (map snd policy_areas)))
   \<and> map_of (analysis (analyze_political_content ''healthcare healthcare healthcare'')) ''healthcare''
       = Some \<lparr>mentions = 2, relevance = ''medium''\<rparr>
   \<and> primary_topics (analyze_political_content ''healthcare healthcare healthcare'') = []"
  by code_simp

text \<open>
  C5, amended. For every input text whose lower-cased form contains \<open>healthcare\<close> (once
  or more often, so also exactly three times) and no policy keyword other than
  \<open>healthcare\<close> and \<open>health\<close>, the tool reports for the area \<open>healthcare\<close> 2 mentions
  and the relevance \<open>''medium''\<close>, for every other area 0 mentions and the relevance
  \<open>''low''\<close>, a total of 2, and no primary topic.
\<close>

theorem healthcare_only:
  assumes "sublist ''healthcare'' (lower text)"
    and "\<forall>kw \<in> set (concat (map snd policy_areas)) - {''healthcare'', ''health''}.
           \<not> sublist kw (lower text)"
  shows "analysis (analyze_political_content text)
       = [(''healthcare'', \<lparr>mentions = 2, relevance = ''medium''\<rparr>),
          (''economy'', \<lparr>mentions = 0, relevance = ''low''\<rparr>),
          (''environment'', \<lparr>mentions = 0, relevance = ''low''\<rparr>),
          (''education'', \<lparr>mentions = 0, relevance = ''low''\<rparr>)]
   \<and> total_policy_mentions (analyze_political_content text) = 2
   \<and> primary_topics (analyze_political_content text) = []"
proof -
  let ?t = "lower text"
  have hc: "sublist ''healthcare'' ?t" by fact
  then have h: "sublist ''health'' ?t" by (rule health_in_healthcare)
  have others: "\<not> sublist kw ?t"
    if "kw \<in> set [''medical'', ''insurance'', ''economic'', ''economy'', ''financial'', ''budget'',
         ''tax'', ''environmental'', ''climate'', ''green'', ''pollution'', ''education'', ''school'',
         ''university'', ''student'']" for kw
    using assms(2) that by (auto simp: policy_areas_def)
  have e1: "area_entry ?t [''healthcare'', ''health'', ''medical'', ''insurance'']
      = \<lparr>mentions = 2, relevance = ''medium''\<rparr>"
    by (simp add: area_entry_def hc h others)
  have e2: "area_entry ?t [''economic'', ''economy'', ''financial'', ''budget'', ''tax'']
      = \<lparr>mentions = 0, relevance = ''low''\<rparr>"
    by (simp add: area_entry_def others)
  have e3: "area_entry ?t [''environmental'', ''climate'', ''green'', ''pollution'']
      = \<lparr>mentions = 0, relevance = ''low''\<rparr>"
    by (simp add: area_entry_def others)
  have e4: "area_entry ?t [''education'', ''school'', ''university'', ''student'']
      = \<lparr>mentions = 0, relevance = ''low''\<rparr>"
    by (simp add: area_entry_def others)
  have an: "analysis (analyze_political_content text)
       = [(''healthcare'', \<lparr>mentions = 2, relevance = ''medium''\<rparr>),
          (''economy'', \<lparr>mentions = 0, relevance = ''low''\<rparr>),
          (''environment'', \<lparr>mentions = 0, relevance = ''low''\<rparr>),
          (''education'', \<lparr>mentions = 0, relevance = ''low''\<rparr>)]"
    by (simp add: analysis_entries policy_areas_def e1 e2 e3 e4)
  have fields: "total_policy_mentions (analyze_political_content text)
        = (\<Sum>a\<leftarrow>map snd (analysis (analyze_political_content text)). mentions a)"
      "primary_topics (analyze_political_content text)
        = map fst (filter (\<lambda>(area, data). relevance data = ''high'')
            (analysis (analyze_political_content text)))"
    by (simp_all add: analyze_political_content_def Let_def)
  show ?thesis
    unfolding fields unfolding an by simp
qed

theorem healthcare_only_witness:
  "sublist ''healthcare'' (lower ''Healthcare healthcare HEALTHCARE.'')
   \<and> analysis (analyze_political_content ''Healthcare healthcare HEALTHCARE.'')
       = [(''healthcare'', \<lparr>mentions = 2, relevance = ''medium''\<rparr>),
          (''economy'', \<lparr>mentions = 0, relevance = ''low''\<rparr>),
          (''environment'', \<lparr>mentions = 0, relevance = ''low''\<rparr>),
          (''education'', \<lparr>mentions = 0, relevance = ''low''\<rparr>)]
   \<and> total_policy_mentions (analyze_political_content ''Healthcare healthcare HEALTHCARE.'') = 2
   \<and> primary_topics (analyze_political_content ''Healthcare healthcare HEALTHCARE.'') = []"
proof -
  have present: "sublist ''healthcare'' (lower ''Healthcare healthcare HEALTHCARE.'')"
    unfolding shouted_text_lower by (simp add: sublist_code)
  have absent: "\<forall>kw \<in> set (concat (map snd policy_areas)) - {''healthcare'', ''health''}.
           \<not> sublist kw (lower ''Healthcare healthcare HEALTHCARE.'')"
    unfolding shouted_text_lower by (simp add: policy_areas_def sublist_code)
  from healthcare_only [OF present absent] present
  show ?thesis by simp
qed

end
